theory Spec2Isabelle
  imports Complex_Main
begin

section \<open>JavaScript numbers\<close>

text \<open>
  The dashboard computes with JavaScript numbers. A number is modelled as a not-a-number
  value, one of the two infinities, or a finite value. Finite values are exact rationals:
  the rounding of IEEE 754 double arithmetic, overflow to an infinity and the sign of zero
  are not modelled (a zero divisor counts as positive zero, which is the only zero the
  running totals of \<open>processData\<close> can take).
\<close>

datatype number = NaN | PInf | NInf | Fin (the_Fin: rat)


text \<open>The operator \<open>+\<close>.\<close>

fun num_add :: "number \<Rightarrow> number \<Rightarrow> number" where
  "num_add (Fin a) (Fin b) = Fin (a + b)"
| "num_add NaN _ = NaN"
| "num_add _ NaN = NaN"
| "num_add PInf NInf = NaN"
| "num_add NInf PInf = NaN"
| "num_add PInf _ = PInf"
| "num_add _ PInf = PInf"
| "num_add NInf _ = NInf"
| "num_add _ NInf = NInf"

text \<open>Unary minus and the operator \<open>-\<close>.\<close>

fun num_neg :: "number \<Rightarrow> number" where
  "num_neg NaN = NaN"
| "num_neg PInf = NInf"
| "num_neg NInf = PInf"
| "num_neg (Fin a) = Fin (- a)"

definition num_sub :: "number \<Rightarrow> number \<Rightarrow> number" where
  "num_sub a b = num_add a (num_neg b)"

text \<open>The operator \<open>*\<close>: an infinity times zero is not a number.\<close>

fun num_mul :: "number \<Rightarrow> number \<Rightarrow> number" where
  "num_mul (Fin a) (Fin b) = Fin (a * b)"
| "num_mul NaN _ = NaN"
| "num_mul _ NaN = NaN"
| "num_mul PInf PInf = PInf"
| "num_mul PInf NInf = NInf"
| "num_mul NInf PInf = NInf"
| "num_mul NInf NInf = PInf"
| "num_mul PInf (Fin b) = (if b = 0 then NaN else if 0 < b then PInf else NInf)"
| "num_mul NInf (Fin b) = (if b = 0 then NaN else if 0 < b then NInf else PInf)"
| "num_mul (Fin a) PInf = (if a = 0 then NaN else if 0 < a then PInf else NInf)"
| "num_mul (Fin a) NInf = (if a = 0 then NaN else if 0 < a then NInf else PInf)"

text \<open>
  The operator \<open>/\<close>. Division by zero does not raise: it gives an infinity with the sign
  of the dividend, and not-a-number for \<open>0 / 0\<close>.
\<close>

fun num_div :: "number \<Rightarrow> number \<Rightarrow> number" where
  "num_div (Fin a) (Fin b) =
     (if b = 0 then (if a = 0 then NaN else if 0 < a then PInf else NInf)
      else Fin (a / b))"
| "num_div NaN _ = NaN"
| "num_div _ NaN = NaN"
| "num_div (Fin a) PInf = Fin 0"
| "num_div (Fin a) NInf = Fin 0"
| "num_div PInf (Fin b) = (if 0 \<le> b then PInf else NInf)"
| "num_div NInf (Fin b) = (if 0 \<le> b then NInf else PInf)"
| "num_div PInf PInf = NaN"
| "num_div PInf NInf = NaN"
| "num_div NInf PInf = NaN"
| "num_div NInf NInf = NaN"

text \<open>The comparisons \<open><\<close>, \<open>>\<close> and \<open><=\<close>: every comparison with not-a-number is false.\<close>

fun num_lt :: "number \<Rightarrow> number \<Rightarrow> bool" where
  "num_lt (Fin a) (Fin b) = (a < b)"
| "num_lt NaN _ = False"
| "num_lt _ NaN = False"
| "num_lt _ NInf = False"
| "num_lt PInf _ = False"
| "num_lt NInf _ = True"
| "num_lt _ PInf = True"

definition num_gt :: "number \<Rightarrow> number \<Rightarrow> bool" where
  "num_gt a b = num_lt b a"

definition num_le :: "number \<Rightarrow> number \<Rightarrow> bool" where
  "num_le a b = (a \<noteq> NaN \<and> b \<noteq> NaN \<and> \<not> num_lt b a)"

text \<open>The global function \<open>isNaN\<close> and the truthiness of a number (\<open>ToBoolean\<close>).\<close>

definition isNaN :: "number \<Rightarrow> bool" where
  "isNaN x = (x = NaN)"

definition truthy_number :: "number \<Rightarrow> bool" where
  "truthy_number x = (x \<noteq> NaN \<and> x \<noteq> Fin 0)"

text \<open>
  \<open>parseFloat(x.toFixed(2))\<close>. \<open>toFixed\<close> prints a non-finite number by name, a number
  of magnitude at least \<open>10^21\<close> as \<open>ToString\<close> does, and every other number as the
  integer \<open>n\<close> nearest to \<open>100 * |x|\<close> (the larger one on a tie) over 100, with the sign
  in front; \<open>parseFloat\<close> reads the printed text back.
\<close>

fun parseFloat_toFixed2 :: "number \<Rightarrow> number" where
  "parseFloat_toFixed2 (Fin x) =
     (if 10 ^ 21 \<le> \<bar>x\<bar> then Fin x
      else Fin (sgn x * (of_int (floor (\<bar>x\<bar> * 100 + 1 / 2)) / 100)))"
| "parseFloat_toFixed2 y = y"

section \<open>Strings\<close>

text \<open>
  A string is a list of 8-bit characters, read as the code units \<open>0..255\<close> of a
  JavaScript string. \<open>trim\<close> removes white space and line terminators from both ends;
  in this range they are tab, line feed, vertical tab, form feed, carriage return, space
  and the no-break space.
\<close>

definition is_whitespace :: "char \<Rightarrow> bool" where
  "is_whitespace c = ((of_char c :: nat) \<in> {9, 10, 11, 12, 13, 32, 160})"

definition trimStart :: "string \<Rightarrow> string" where
  "trimStart s = dropWhile is_whitespace s"

definition trim :: "string \<Rightarrow> string" where
  "trim s = rev (dropWhile is_whitespace (rev (dropWhile is_whitespace s)))"

text \<open>
  \<open>s.split(/\r\n|\n/)\<close>: a carriage return followed by a line feed, or a line feed
  alone, ends a piece; there is always at least one piece.
\<close>

fun split_lines :: "string \<Rightarrow> string list" where
  "split_lines [] = [[]]"
| "split_lines [c] = (if c = CHR 0x0A then [[], []] else [[c]])"
| "split_lines (c # d # cs) =
     (if c = CHR 0x0A then [] # split_lines (d # cs)
      else if c = CHR 0x0D \<and> d = CHR 0x0A then [] # split_lines cs
      else (case split_lines (d # cs) of
              [] \<Rightarrow> [[c]]
            | piece # pieces \<Rightarrow> (c # piece) # pieces))"

text \<open>\<open>s.split(',')\<close>: no quoting, no escaping.\<close>

fun split_comma :: "string \<Rightarrow> string list" where
  "split_comma [] = [[]]"
| "split_comma (c # cs) =
     (if c = CHR '','' then [] # split_comma cs
      else (case split_comma cs of
              [] \<Rightarrow> [[c]]
            | piece # pieces \<Rightarrow> (c # piece) # pieces))"

text \<open>\<open>xs.join(', ')\<close>.\<close>

fun join_comma_space :: "string list \<Rightarrow> string" where
  "join_comma_space [] = []"
| "join_comma_space [x] = x"
| "join_comma_space (x # y # ys) = x @ '', '' @ join_comma_space (y # ys)"

text \<open>\<open>xs.indexOf(x)\<close>: the first index of \<open>x\<close>, or \<open>-1\<close>.\<close>

fun indexOf :: "'a list \<Rightarrow> 'a \<Rightarrow> int" where
  "indexOf [] x = - 1"
| "indexOf (y # ys) x =
     (if y = x then 0 else (let i = indexOf ys x in if i = - 1 then - 1 else i + 1))"

text \<open>\<open>xs[i]\<close>: \<open>undefined\<close> (here \<open>None\<close>) outside the array.\<close>

definition element_at :: "'a list \<Rightarrow> int \<Rightarrow> 'a option" where
  "element_at xs i = (if 0 \<le> i \<and> nat i < length xs then Some (xs ! nat i) else None)"

text \<open>The decimal digits of a natural number (the string of an HTTP status).\<close>

fun digits_of_nat :: "nat \<Rightarrow> string" where
  "digits_of_nat n =
     (if n < 10 then [char_of (48 + n)]
      else digits_of_nat (n div 10) @ [char_of (48 + n mod 10)])"

declare digits_of_nat.simps [simp del]

subsection \<open>parseFloat\<close>

text \<open>
  \<open>parseFloat\<close> skips leading white space and reads the longest prefix that is a decimal
  literal: an optional sign, then \<open>Infinity\<close>, or digits with an optional fraction and an
  optional exponent (a fraction may stand without integer digits). With no such prefix
  the result is not-a-number. The literal's value is taken exactly.
\<close>

definition is_digit :: "char \<Rightarrow> bool" where
  "is_digit c = (48 \<le> (of_char c :: nat) \<and> (of_char c :: nat) \<le> 57)"

definition digits_value :: "string \<Rightarrow> nat" where
  "digits_value ds = foldl (\<lambda>a c. 10 * a + (of_char c - 48)) 0 ds"

text \<open>The exponent part at the head of a string, or 0 when there is none.\<close>

definition exponent_part :: "string \<Rightarrow> int" where
  "exponent_part s =
     (case s of
        [] \<Rightarrow> 0
      | c # r \<Rightarrow>
          if c = CHR ''e'' \<or> c = CHR ''E'' then
            (let negative = (r \<noteq> [] \<and> hd r = CHR ''-'');
                 signed = (r \<noteq> [] \<and> (hd r = CHR ''-'' \<or> hd r = CHR ''+''));
                 ds = takeWhile is_digit (if signed then tl r else r)
             in if ds = [] then 0
                else if negative then - int (digits_value ds) else int (digits_value ds))
          else 0)"

definition scale10 :: "rat \<Rightarrow> int \<Rightarrow> rat" where
  "scale10 m e = (if 0 \<le> e then m * 10 ^ nat e else m / 10 ^ nat (- e))"

definition parseFloat_string :: "string \<Rightarrow> number" where
  "parseFloat_string s =
     (let t = trimStart s;
          negative = (t \<noteq> [] \<and> hd t = CHR ''-'');
          signed = (t \<noteq> [] \<and> (hd t = CHR ''-'' \<or> hd t = CHR ''+''));
          u = (if signed then tl t else t)
      in if take 8 u = ''Infinity'' then (if negative then NInf else PInf)
         else
           (let intDigits = takeWhile is_digit u;
                afterInt = dropWhile is_digit u;
                hasPoint = (afterInt \<noteq> [] \<and> hd afterInt = CHR ''.'');
                fracDigits = (if hasPoint then takeWhile is_digit (tl afterInt) else []);
                afterFrac = (if hasPoint then dropWhile is_digit (tl afterInt) else afterInt)
            in if intDigits = [] \<and> fracDigits = [] then NaN
               else
                 (let mantissa =
                        of_nat (digits_value (intDigits @ fracDigits)) / 10 ^ length fracDigits;
                      magnitude = scale10 mantissa (exponent_part afterFrac)
                  in Fin (if negative then - magnitude else magnitude))))"

text \<open>\<open>parseFloat(v)\<close> for a cell that may be \<open>undefined\<close>, which reads as not-a-number.\<close>

definition parseFloat :: "string option \<Rightarrow> number" where
  "parseFloat v = (case v of None \<Rightarrow> NaN | Some s \<Rightarrow> parseFloat_string s)"

section \<open>Data model (types)\<close>

datatype AssetType = BTC | GOLD

datatype Currency = THB | USD

datatype TimeRange = W | M | Y

text \<open>
  A \<open>Date\<close> object is represented by the argument its constructor was given
  (\<open>None\<close> for \<open>undefined\<close>); its time value is whatever the engine's date parser makes of
  that text. A formatted date label is represented by the date it renders.
\<close>

datatype jsdate = Date "string option"

datatype date_label = ShortDate jsdate

text \<open>
  The time value of a date, in milliseconds: none (\<open>NaN\<close>, an invalid date) for
  \<open>new Date(undefined)\<close>, and otherwise what the engine's date parser, a parameter here,
  makes of the text.
\<close>

fun time_value :: "(string \<Rightarrow> int option) \<Rightarrow> jsdate \<Rightarrow> int option" where
  "time_value parse (Date None) = None"
| "time_value parse (Date (Some s)) = parse s"

record AssetColumns =
  date :: string
  invested :: string
  price :: string
  purchased :: string

record RawTransaction =
  date :: jsdate
  invested :: number
  assetPrice :: number
  assetPurchased :: number

record ChartDataPoint =
  date :: date_label
  portValue :: number
  assetValue :: number
  cumulativeAmount :: "number option"

record SummaryData =
  profitPercentage :: number
  totalCapital :: number
  entryPrice :: number
  startDate :: jsdate
  portValue :: number
  lastUpdated :: jsdate
  totalAmount :: number

text \<open>The result of \<open>parseCsv\<close>: the object with the fields \<open>data\<close> and \<open>error\<close>.\<close>

record ParseResult =
  parsed_data :: "RawTransaction list"
  parsed_error :: "string option"

record DcaBundle =
  chartData :: "ChartDataPoint list"
  summaryData :: "SummaryData option"
  rawData :: "RawTransaction list"
  error :: "string option"

section \<open>The aggregator\<close>

text \<open>
  The callback of \<open>data.map\<close> in \<open>processData\<close> updates the two running totals it
  closes over; here the totals are passed along and returned with the chart points.
\<close>

fun chartData_map ::
  "number \<Rightarrow> number \<Rightarrow> RawTransaction list \<Rightarrow> ChartDataPoint list \<times> number \<times> number" where
  "chartData_map cumInvested cumAmount [] = ([], cumInvested, cumAmount)"
| "chartData_map cumInvested cumAmount (point # rest) =
     (let cumInvested' = num_add cumInvested (invested point);
          cumAmount' = num_add cumAmount (assetPurchased point);
          portValue' = num_mul cumAmount' (assetPrice point);
          chartPoint = \<lparr>ChartDataPoint.date = ShortDate (RawTransaction.date point),
                        ChartDataPoint.portValue = parseFloat_toFixed2 portValue',
                        assetValue = parseFloat_toFixed2 cumInvested',
                        cumulativeAmount = Some cumAmount'\<rparr>
      in case chartData_map cumInvested' cumAmount' rest of
           (points, finalInvested, finalAmount) \<Rightarrow>
             (chartPoint # points, finalInvested, finalAmount))"

definition processData :: "RawTransaction list \<Rightarrow> DcaBundle" where
  "processData data =
     (if length data = 0
      then \<lparr>chartData = [], summaryData = None, rawData = [], error = None\<rparr>
      else
        (case chartData_map (Fin 0) (Fin 0) data of
           (points, cumInvested, cumAmount) \<Rightarrow>
             (let finalDataPoint = data ! (length data - 1);
                  finalPortValue = num_mul cumAmount (assetPrice finalDataPoint);
                  profit = num_sub finalPortValue cumInvested;
                  profitPct = num_mul (num_div profit cumInvested) (Fin 100);
                  entry = num_div cumInvested cumAmount
              in \<lparr>chartData = points,
                  summaryData = Some
                    \<lparr>profitPercentage = profitPct,
                     totalCapital = cumInvested,
                     entryPrice = entry,
                     startDate = RawTransaction.date (data ! 0),
                     SummaryData.portValue = finalPortValue,
                     lastUpdated = RawTransaction.date finalDataPoint,
                     totalAmount = cumAmount\<rparr>,
                  rawData = data, error = None\<rparr>)))"

section \<open>The transaction parser\<close>

definition COLUMN_MAP :: "AssetType \<Rightarrow> AssetColumns" where
  "COLUMN_MAP asset =
     (case asset of
        BTC \<Rightarrow> \<lparr>AssetColumns.date = ''Date'', AssetColumns.invested = ''Invested (THB)'',
                 AssetColumns.price = ''BTC Price (THB)'', purchased = ''BTC Purchased''\<rparr>
      | GOLD \<Rightarrow> \<lparr>AssetColumns.date = ''Gold Date'',
                  AssetColumns.invested = ''Invested Gold (THB)'',
                  AssetColumns.price = ''Gold Price (THB)'',
                  purchased = ''Gold Purchased (g)''\<rparr>)"

text \<open>An asset identifier as it prints inside a template string.\<close>

fun asset_name :: "AssetType \<Rightarrow> string" where
  "asset_name BTC = ''BTC''"
| "asset_name GOLD = ''GOLD''"

text \<open>\<open>Object.values(assetColumns)\<close>: the values in the order the keys were written.\<close>

definition Object_values :: "AssetColumns \<Rightarrow> string list" where
  "Object_values c =
     [AssetColumns.date c, AssetColumns.invested c, AssetColumns.price c, purchased c]"

text \<open>The message of the missing-columns error of \<open>parseCsv\<close>.\<close>

definition missing_columns_message :: "AssetType \<Rightarrow> string" where
  "missing_columns_message asset =
     ''Columns for '' @ asset_name asset @
     '' not found in the Google Sheet. Please ensure the following headers are present and correct in the published CSV: '' @
     join_comma_space (Object_values (COLUMN_MAP asset)) @
     ''. Empty columns between BTC and Gold data may cause this issue.''"

text \<open>
  The truthiness of an object: every object is truthy, and a \<open>Date\<close> is an object whether
  or not its time value is a valid one.
\<close>

definition truthy_object :: "'a \<Rightarrow> bool" where
  "truthy_object obj = True"

text \<open>The callback of \<open>dataRows.map\<close>: one line of the sheet as a record.\<close>

definition parse_row :: "int \<Rightarrow> int \<Rightarrow> int \<Rightarrow> int \<Rightarrow> string \<Rightarrow> RawTransaction" where
  "parse_row dateIndex investedIndex priceIndex purchasedIndex line =
     (let values = map trim (split_comma line)
      in \<lparr>RawTransaction.date = Date (element_at values dateIndex),
          RawTransaction.invested = parseFloat (element_at values investedIndex),
          assetPrice = parseFloat (element_at values priceIndex),
          assetPurchased = parseFloat (element_at values purchasedIndex)\<rparr>)"

text \<open>The predicate of \<open>.filter\<close>: which records are kept.\<close>

definition row_filter :: "RawTransaction \<Rightarrow> bool" where
  "row_filter d =
     (truthy_object (RawTransaction.date d) \<and> \<not> isNaN (RawTransaction.invested d) \<and>
      \<not> isNaN (assetPrice d) \<and> \<not> isNaN (assetPurchased d) \<and>
      num_gt (RawTransaction.invested d) (Fin 0))"

definition parseCsv :: "string \<Rightarrow> AssetType \<Rightarrow> ParseResult" where
  "parseCsv csvText asset =
     (let lines = split_lines (trim csvText)
      in if length lines < 2
         then \<lparr>parsed_data = [], parsed_error = Some ''CSV file is empty or has only a header.''\<rparr>
         else
           (let header = map trim (split_comma (lines ! 0));
                dataRows = drop 1 lines;
                assetColumns = COLUMN_MAP asset;
                dateIndex = indexOf header (AssetColumns.date assetColumns);
                investedIndex = indexOf header (AssetColumns.invested assetColumns);
                priceIndex = indexOf header (AssetColumns.price assetColumns);
                purchasedIndex = indexOf header (purchased assetColumns)
            in if - 1 \<in> set [dateIndex, investedIndex, priceIndex, purchasedIndex]
               then \<lparr>parsed_data = [], parsed_error = Some (missing_columns_message asset)\<rparr>
               else \<lparr>parsed_data = filter row_filter
                              (map (parse_row dateIndex investedIndex priceIndex purchasedIndex)
                                 dataRows),
                     parsed_error = None\<rparr>))"

text \<open>The truthiness of a string that may be \<open>null\<close>: present and not empty.\<close>

definition truthy_string :: "string option \<Rightarrow> bool" where
  "truthy_string v = (case v of None \<Rightarrow> False | Some s \<Rightarrow> s \<noteq> [])"

text \<open>The body of the loop of \<open>fetchAllDcaData\<close>: the bundle of one asset.\<close>

definition asset_bundle :: "string \<Rightarrow> AssetType \<Rightarrow> DcaBundle" where
  "asset_bundle csvText asset =
     (let parsed = parseCsv csvText asset
      in if truthy_string (parsed_error parsed)
         then \<lparr>chartData = [], summaryData = None, rawData = [],
               error = parsed_error parsed\<rparr>
         else if length (parsed_data parsed) = 0
         then \<lparr>chartData = [], summaryData = None, rawData = [],
               error =
                 Some (''No valid transaction rows found for '' @ asset_name asset @
                       ''. Please check the data in your Google Sheet.'')\<rparr>
         else processData (parsed_data parsed))"

text \<open>
  \<open>fetchAllDcaData\<close>, from the response of the sheet request on: a response that is not
  \<open>ok\<close> throws, any other is parsed once per asset. A thrown error is \<open>Inl\<close> of its
  message.
\<close>

record Response =
  ok :: bool
  status :: nat
  body :: string

definition fetchAllDcaData :: "Response \<Rightarrow> string + (AssetType \<rightharpoonup> DcaBundle)" where
  "fetchAllDcaData response =
     (if \<not> ok response
      then Inl (''Failed to fetch from Google Sheets: '' @ digits_of_nat (status response))
      else Inr (foldl (\<lambda>result asset. result(asset \<mapsto> asset_bundle (body response) asset))
                  Map.empty [BTC, GOLD]))"

section \<open>Live prices\<close>

record PriceInfo =
  price :: number
  change24h :: number
  change24hPercentage :: number
  isMock :: "bool option"

record CurrencyPrices =
  thb :: PriceInfo
  usd :: PriceInfo

type_synonym LiveAssetPriceData = "AssetType \<rightharpoonup> CurrencyPrices"

text \<open>
  The two price services, from their responses on. A response is reduced to what the code
  reads of it: whether it is \<open>ok\<close> and the first entry of its payload, if there is one. A
  field of an entry is a number; a field that is missing reads as \<open>undefined\<close>, which
  behaves as not-a-number in every operation applied to it here.
\<close>

record CoinGeckoItem =
  current_price :: number
  price_change_24h :: number
  price_change_percentage_24h :: number

record GoldItem =
  xauPrice :: number
  chgXau :: number
  pcXau :: number

record 'a ApiResponse =
  api_ok :: bool
  first_item :: "'a option"

definition TROY_OUNCE_TO_GRAMS :: number where
  "TROY_OUNCE_TO_GRAMS = Fin (311035 / 10000)"

definition GOLD_CONVERSION_GRAMS :: number where
  "GOLD_CONVERSION_GRAMS = Fin (1471 / 100)"

definition goldPrice :: "GoldItem \<Rightarrow> PriceInfo" where
  "goldPrice raw =
     \<lparr>price = num_mul (num_div (xauPrice raw) TROY_OUNCE_TO_GRAMS) GOLD_CONVERSION_GRAMS,
      change24h = num_mul (num_div (chgXau raw) TROY_OUNCE_TO_GRAMS) GOLD_CONVERSION_GRAMS,
      change24hPercentage = pcXau raw,
      isMock = None\<rparr>"

definition btcPrice :: "CoinGeckoItem \<Rightarrow> PriceInfo" where
  "btcPrice item =
     \<lparr>price = current_price item,
      change24h = price_change_24h item,
      change24hPercentage = price_change_percentage_24h item,
      isMock = None\<rparr>"

text \<open>
  \<open>fetchLivePrices\<close>: every error thrown inside its \<open>try\<close> block is caught and thrown
  again under one message, so the batch either gives all prices or fails as a whole.
\<close>

definition fetchLivePrices ::
  "CoinGeckoItem ApiResponse \<Rightarrow> CoinGeckoItem ApiResponse \<Rightarrow> GoldItem ApiResponse \<Rightarrow>
   GoldItem ApiResponse \<Rightarrow> string + (LiveAssetPriceData \<times> number)" where
  "fetchLivePrices btcUsdResponse btcThbResponse goldThbResponse goldUsdResponse =
     (if \<not> api_ok btcUsdResponse \<or> \<not> api_ok btcThbResponse \<or>
         \<not> api_ok goldThbResponse \<or> \<not> api_ok goldUsdResponse
      then Inl ''Could not fetch live prices.''
      else
        (case (first_item btcUsdResponse, first_item btcThbResponse) of
           (Some btcUsd, Some btcThb) \<Rightarrow>
             (let btcPrices = \<lparr>thb = btcPrice btcThb, usd = btcPrice btcUsd\<rparr>
              in if \<not> truthy_number (price (usd btcPrices)) \<or> price (usd btcPrices) = Fin 0
                 then Inl ''Could not fetch live prices.''
                 else
                   (case (first_item goldThbResponse, first_item goldUsdResponse) of
                      (Some goldThbRaw, Some goldUsdRaw) \<Rightarrow>
                        (let goldPrices =
                               \<lparr>thb = goldPrice goldThbRaw, usd = goldPrice goldUsdRaw\<rparr>;
                             rate = num_div (price (thb btcPrices)) (price (usd btcPrices))
                         in Inr ([BTC \<mapsto> btcPrices, GOLD \<mapsto> goldPrices], rate))
                    | _ \<Rightarrow> Inl ''Could not fetch live prices.''))
         | _ \<Rightarrow> Inl ''Could not fetch live prices.''))"

section \<open>The page\<close>

text \<open>The values the page derives from its state, as functions of what they depend on.\<close>

definition conversionRate :: "Currency \<Rightarrow> number option \<Rightarrow> number" where
  "conversionRate currency thbUsdRate =
     (case thbUsdRate of
        None \<Rightarrow> Fin 1
      | Some rate \<Rightarrow> if currency = USD \<and> truthy_number rate then num_div (Fin 1) rate else Fin 1)"

definition currentAssetData ::
  "(AssetType \<rightharpoonup> DcaBundle) option \<Rightarrow> AssetType \<Rightarrow> DcaBundle option" where
  "currentAssetData allDcaData selectedAsset =
     (case allDcaData of None \<Rightarrow> None | Some bundles \<Rightarrow> bundles selectedAsset)"

definition currentLivePrice ::
  "LiveAssetPriceData option \<Rightarrow> AssetType \<Rightarrow> Currency \<Rightarrow> PriceInfo option" where
  "currentLivePrice livePrices selectedAsset currency =
     (case livePrices of
        None \<Rightarrow> None
      | Some prices \<Rightarrow>
          (case prices selectedAsset of
             None \<Rightarrow> None
           | Some both \<Rightarrow> Some (case currency of THB \<Rightarrow> thb both | USD \<Rightarrow> usd both)))"

definition livePricePerGram :: "PriceInfo option \<Rightarrow> AssetType \<Rightarrow> PriceInfo option" where
  "livePricePerGram live selectedAsset =
     (case live of
        None \<Rightarrow> None
      | Some p \<Rightarrow>
          if selectedAsset = GOLD
          then Some (p\<lparr>price := num_div (price p) GOLD_CONVERSION_GRAMS\<rparr>)
          else Some p)"

text \<open>\<open>xs.slice(-n)\<close>: the last \<open>n\<close> elements, or all of them when there are fewer.\<close>

definition slice_last :: "nat \<Rightarrow> 'a list \<Rightarrow> 'a list" where
  "slice_last n xs = drop (length xs - n) xs"

text \<open>The truthiness of a number that may be \<open>undefined\<close>.\<close>

definition truthy_number_opt :: "number option \<Rightarrow> bool" where
  "truthy_number_opt v = (case v of None \<Rightarrow> False | Some x \<Rightarrow> truthy_number x)"

text \<open>The callback of \<open>data.map\<close> in \<open>filteredChartData\<close>: one displayed chart point.\<close>

definition displayed_point :: "PriceInfo option \<Rightarrow> number \<Rightarrow> ChartDataPoint \<Rightarrow> ChartDataPoint" where
  "displayed_point perGram rate d =
     d\<lparr>ChartDataPoint.portValue :=
         (if perGram \<noteq> None \<and> truthy_number_opt (cumulativeAmount d)
          then num_mul (the (cumulativeAmount d)) (price (the perGram))
          else num_mul (ChartDataPoint.portValue d) rate),
       assetValue := num_mul (assetValue d) rate\<rparr>"

definition filteredChartData ::
  "DcaBundle option \<Rightarrow> TimeRange \<Rightarrow> number \<Rightarrow> PriceInfo option \<Rightarrow> ChartDataPoint list" where
  "filteredChartData assetData timeRange rate perGram =
     (case assetData of
        None \<Rightarrow> []
      | Some bundle \<Rightarrow>
          if truthy_string (error bundle) then []
          else
            (let points =
                   (case timeRange of
                      W \<Rightarrow> slice_last 7 (chartData bundle)
                    | M \<Rightarrow> slice_last 30 (chartData bundle)
                    | Y \<Rightarrow> chartData bundle)
             in map (displayed_point perGram rate) points))"

definition liveSummary ::
  "DcaBundle option \<Rightarrow> PriceInfo option \<Rightarrow> number \<Rightarrow> SummaryData option" where
  "liveSummary assetData perGram rate =
     (case assetData of
        None \<Rightarrow> None
      | Some bundle \<Rightarrow>
          (case summaryData bundle of
             None \<Rightarrow> None
           | Some summary \<Rightarrow>
               (let convertedTotalCapital = num_mul (totalCapital summary) rate;
                    convertedEntryPrice = num_mul (entryPrice summary) rate;
                    (livePortValue, liveProfitPercentage) =
                      (case perGram of
                         None \<Rightarrow>
                           (num_mul (SummaryData.portValue summary) rate,
                            profitPercentage summary)
                       | Some p \<Rightarrow>
                           (let liveValue = num_mul (totalAmount summary) (price p);
                                profit = num_sub liveValue convertedTotalCapital
                            in (liveValue,
                                num_mul (num_div profit convertedTotalCapital) (Fin 100))))
                in Some (summary\<lparr>SummaryData.portValue := livePortValue,
                                   profitPercentage := liveProfitPercentage,
                                   totalCapital := convertedTotalCapital,
                                   entryPrice := convertedEntryPrice\<rparr>))))"

text \<open>
  The money cells of one row of the transaction table, before they are formatted: the
  date, the invested amount and the price times the rate, and the units.
\<close>

definition TransactionHistory_row ::
  "number \<Rightarrow> RawTransaction \<Rightarrow> jsdate \<times> number \<times> number \<times> number" where
  "TransactionHistory_row rate tx =
     (RawTransaction.date tx, num_mul (RawTransaction.invested tx) rate,
      num_mul (assetPrice tx) rate, assetPurchased tx)"

subsection \<open>State and handlers\<close>

text \<open>
  The state of the page (the time of the last price update, a clock reading, is left
  out). A handler that awaits a request is modelled by its effect when the request has
  settled: \<open>Inr\<close> of the value it resolved to, or \<open>Inl\<close> of the message it rejected with.
  The state updates a handler makes one after the other are taken as one step.
\<close>

record PageState =
  loading :: bool
  pageError :: "string option"
  allDcaData :: "(AssetType \<rightharpoonup> DcaBundle) option"
  timeRange :: TimeRange
  currency :: Currency
  selectedAsset :: AssetType
  livePrices :: "LiveAssetPriceData option"
  thbUsdRate :: "number option"
  livePriceError :: "string option"
  isRefreshing :: bool

definition initial_state :: PageState where
  "initial_state =
     \<lparr>loading = True, pageError = None, allDcaData = None, timeRange = Y, currency = THB,
      selectedAsset = BTC, livePrices = None, thbUsdRate = None, livePriceError = None,
      isRefreshing = False\<rparr>"

text \<open>
  \<open>Promise.all\<close> of two requests resolves when both do and rejects when one does. (When
  both reject, the message is that of the one that rejected first; the model takes the
  first argument's.)
\<close>

fun Promise_all2 :: "string + 'a \<Rightarrow> string + 'b \<Rightarrow> string + ('a \<times> 'b)" where
  "Promise_all2 (Inr a) (Inr b) = Inr (a, b)"
| "Promise_all2 (Inl e) _ = Inl e"
| "Promise_all2 (Inr a) (Inl e) = Inl e"

definition loadInitialData ::
  "string + (AssetType \<rightharpoonup> DcaBundle) \<Rightarrow> string + (LiveAssetPriceData \<times> number) \<Rightarrow>
   PageState \<Rightarrow> PageState" where
  "loadInitialData dcaSettled priceSettled s =
     (case Promise_all2 dcaSettled priceSettled of
        Inr (dcaData, priceData) \<Rightarrow>
          s\<lparr>allDcaData := Some dcaData,
            livePrices := Some (fst priceData),
            thbUsdRate := Some (snd priceData),
            pageError := (if truthy_string (pageError s) then None else pageError s)\<rparr>
      | Inl errorMessage \<Rightarrow>
          s\<lparr>pageError := Some errorMessage, livePriceError := Some errorMessage\<rparr>)"

definition initialLoad ::
  "string + (AssetType \<rightharpoonup> DcaBundle) \<Rightarrow> string + (LiveAssetPriceData \<times> number) \<Rightarrow>
   PageState \<Rightarrow> PageState" where
  "initialLoad dcaSettled priceSettled s =
     (loadInitialData dcaSettled priceSettled (s\<lparr>loading := True\<rparr>))\<lparr>loading := False\<rparr>"

definition handleRefresh ::
  "string + (AssetType \<rightharpoonup> DcaBundle) \<Rightarrow> string + (LiveAssetPriceData \<times> number) \<Rightarrow>
   PageState \<Rightarrow> PageState" where
  "handleRefresh dcaSettled priceSettled s =
     (if isRefreshing s then s
      else (loadInitialData dcaSettled priceSettled (s\<lparr>isRefreshing := True\<rparr>))
             \<lparr>isRefreshing := False\<rparr>)"

text \<open>The callback of the 60-second timer.\<close>

definition interval_tick :: "string + (LiveAssetPriceData \<times> number) \<Rightarrow> PageState \<Rightarrow> PageState" where
  "interval_tick priceSettled s =
     (case priceSettled of
        Inr priceData \<Rightarrow> s\<lparr>livePrices := Some (fst priceData), thbUsdRate := Some (snd priceData)\<rparr>
      | Inl message \<Rightarrow> s\<lparr>livePriceError := Some message\<rparr>)"

text \<open>The states the page can be in: the initial one, and every state a handler leads to.\<close>

inductive reachable :: "PageState \<Rightarrow> bool" where
  start: "reachable initial_state"
| loaded:
    "reachable s \<Longrightarrow>
     reachable (initialLoad (fetchAllDcaData response) (fetchLivePrices bu bt gt gu) s)"
| refreshed:
    "reachable s \<Longrightarrow>
     reachable (handleRefresh (fetchAllDcaData response) (fetchLivePrices bu bt gt gu) s)"
| refresh_failed: "reachable s \<Longrightarrow> reachable (handleRefresh (Inl message) priceSettled s)"
| load_failed: "reachable s \<Longrightarrow> reachable (initialLoad (Inl message) priceSettled s)"
| tick: "reachable s \<Longrightarrow> reachable (interval_tick (fetchLivePrices bu bt gt gu) s)"
| range_chosen: "reachable s \<Longrightarrow> reachable (s\<lparr>timeRange := r\<rparr>)"
| currency_chosen: "reachable s \<Longrightarrow> reachable (s\<lparr>currency := c\<rparr>)"
| asset_chosen: "reachable s \<Longrightarrow> reachable (s\<lparr>selectedAsset := a\<rparr>)"

text \<open>The derived values of a state.\<close>

definition page_conversionRate :: "PageState \<Rightarrow> number" where
  "page_conversionRate s = conversionRate (currency s) (thbUsdRate s)"

definition page_currentAssetData :: "PageState \<Rightarrow> DcaBundle option" where
  "page_currentAssetData s = currentAssetData (allDcaData s) (selectedAsset s)"

definition page_currentLivePrice :: "PageState \<Rightarrow> PriceInfo option" where
  "page_currentLivePrice s = currentLivePrice (livePrices s) (selectedAsset s) (currency s)"

definition page_livePricePerGram :: "PageState \<Rightarrow> PriceInfo option" where
  "page_livePricePerGram s = livePricePerGram (page_currentLivePrice s) (selectedAsset s)"

definition page_filteredChartData :: "PageState \<Rightarrow> ChartDataPoint list" where
  "page_filteredChartData s =
     filteredChartData (page_currentAssetData s) (timeRange s) (page_conversionRate s)
       (page_livePricePerGram s)"

definition page_liveSummary :: "PageState \<Rightarrow> SummaryData option" where
  "page_liveSummary s =
     liveSummary (page_currentAssetData s) (page_livePricePerGram s) (page_conversionRate s)"

section \<open>Notions used in the statements\<close>

text \<open>The sum of a list of numbers, added from the left starting at zero.\<close>

definition num_sum :: "number list \<Rightarrow> number" where
  "num_sum xs = foldl num_add (Fin 0) xs"


text \<open>The lines of a sheet and the names in its header row, as \<open>parseCsv\<close> computes them.\<close>

definition csv_lines :: "string \<Rightarrow> string list" where
  "csv_lines csvText = split_lines (trim csvText)"

definition csv_header :: "string \<Rightarrow> string list" where
  "csv_header csvText = map trim (split_comma (csv_lines csvText ! 0))"

text \<open>
  What the handlers maintain about live prices: the prices and the THB/USD rate are
  present together, a state that holds bundles holds prices, and stored prices cover both
  assets.
\<close>

definition prices_complete :: "PageState \<Rightarrow> bool" where
  "prices_complete s =
     ((livePrices s = None \<longleftrightarrow> thbUsdRate s = None) \<and>
      (allDcaData s \<noteq> None \<longrightarrow> livePrices s \<noteq> None) \<and>
      (\<forall>prices. livePrices s = Some prices \<longrightarrow> prices BTC \<noteq> None \<and> prices GOLD \<noteq> None))"

section \<open>Sample inputs\<close>

text \<open>The two transactions of the specification's worked example.\<close>

definition example_rows :: "RawTransaction list" where
  "example_rows =
     [\<lparr>RawTransaction.date = Date (Some ''2024-01-01''), invested = Fin 100,
       assetPrice = Fin 50000, assetPurchased = Fin (2 / 1000)\<rparr>,
      \<lparr>RawTransaction.date = Date (Some ''2024-02-01''), invested = Fin 100,
       assetPrice = Fin 60000, assetPurchased = Fin (167 / 100000)\<rparr>]"

text \<open>Sheets: a line feed, the header of the bitcoin columns, and some rows under it.\<close>

definition newline :: string where
  "newline = [CHR 0x0A]"

definition btc_header :: string where
  "btc_header = ''Date,Invested (THB),BTC Price (THB),BTC Purchased''"

definition example_csv :: string where
  "example_csv =
     btc_header @ newline @ ''2024-01-01,100,50000,0.002'' @ newline @
     ''2024-02-01,100,60000,0.00167''"

text \<open>
  A sheet whose only row has a date cell that is not a date, and one whose only row has no
  date cell at all.
\<close>

definition csv_unparseable_date :: string where
  "csv_unparseable_date = btc_header @ newline @ ''not-a-date,100,50000,0.002''"

definition date_last_header :: string where
  "date_last_header = ''Invested (THB),BTC Price (THB),BTC Purchased,Date''"

definition csv_missing_date_cell :: string where
  "csv_missing_date_cell = date_last_header @ newline @ ''100,50000,0.002''"


definition csv_negative_units :: string where
  "csv_negative_units =
     btc_header @ newline @ ''2024-01-01,100,50000,0.002'' @ newline @
     ''2024-01-02,100,50000,-0.001''"



text \<open>Responses of the sheet and of the price services, and the prices they give.\<close>

definition example_response :: Response where
  "example_response = \<lparr>ok = True, status = 200, body = example_csv\<rparr>"

definition coin_response :: "number \<Rightarrow> CoinGeckoItem ApiResponse" where
  "coin_response p =
     \<lparr>api_ok = True,
      first_item = Some \<lparr>current_price = p, price_change_24h = Fin 0,
                         price_change_percentage_24h = Fin 0\<rparr>\<rparr>"

definition gold_response :: "number \<Rightarrow> GoldItem ApiResponse" where
  "gold_response p =
     \<lparr>api_ok = True, first_item = Some \<lparr>xauPrice = p, chgXau = Fin 0, pcXau = Fin 0\<rparr>\<rparr>"


definition example_prices :: "number \<Rightarrow> LiveAssetPriceData" where
  "example_prices btcThb =
     [BTC \<mapsto> \<lparr>thb = \<lparr>price = btcThb, change24h = Fin 0, change24hPercentage = Fin 0,
                        isMock = None\<rparr>,
               usd = \<lparr>price = Fin 2000, change24h = Fin 0, change24hPercentage = Fin 0,
                        isMock = None\<rparr>\<rparr>,
      GOLD \<mapsto> \<lparr>thb = goldPrice \<lparr>xauPrice = Fin 3110350, chgXau = Fin 0, pcXau = Fin 0\<rparr>,
                usd = goldPrice \<lparr>xauPrice = Fin 88867, chgXau = Fin 0, pcXau = Fin 0\<rparr>\<rparr>]"

text \<open>
  The page after a first load in which every request succeeded, with bitcoin at the given
  THB price.
\<close>

definition loaded_page :: "number \<Rightarrow> PageState" where
  "loaded_page btcThb =
     initialLoad (fetchAllDcaData example_response)
       (fetchLivePrices (coin_response (Fin 2000)) (coin_response btcThb)
          (gold_response (Fin 3110350)) (gold_response (Fin 88867)))
       initial_state"



section \<open>Numbers: basic facts\<close>

lemma num_mul_one: "num_mul x (Fin 1) = x"
  by (cases x) simp_all

lemma num_gt_zero_nonneg: "num_gt x (Fin 0) \<Longrightarrow> num_le (Fin 0) x"
  by (cases x) (auto simp: num_le_def num_gt_def)

lemma num_le_trans: "num_le a b \<Longrightarrow> num_le b c \<Longrightarrow> num_le a c"
  by (cases a; cases b; cases c) (auto simp: num_le_def)

lemma num_add_nonneg:
  "num_le (Fin 0) a \<Longrightarrow> num_le (Fin 0) x \<Longrightarrow>
     num_le (Fin 0) (num_add a x) \<and> num_le a (num_add a x)"
  by (cases a; cases x) (auto simp: num_le_def)



lemma foldl_num_add_grows:
  "num_le (Fin 0) a \<Longrightarrow> \<forall>x \<in> set xs. num_le (Fin 0) x \<Longrightarrow>
     num_le (Fin 0) (foldl num_add a xs) \<and> num_le a (foldl num_add a xs)"
proof (induction xs arbitrary: a)
  case Nil
  then show ?case by (cases a) (auto simp: num_le_def)
next
  case (Cons x xs)
  from Cons.prems have x: "num_le (Fin 0) x" and rest: "\<forall>y \<in> set xs. num_le (Fin 0) y"
    by simp_all
  from num_add_nonneg [OF Cons.prems(1) x]
  have nn: "num_le (Fin 0) (num_add a x)" and le: "num_le a (num_add a x)" by simp_all
  from Cons.IH [OF nn rest] le show ?case by (auto intro: num_le_trans)
qed

lemma foldl_num_add_prefix_mono:
  assumes "num_le (Fin 0) a" and "\<forall>x \<in> set xs. num_le (Fin 0) x" and "i \<le> j"
  shows "num_le (foldl num_add a (take i xs)) (foldl num_add a (take j xs))"
proof -
  have split: "take j xs = take i xs @ take (j - i) (drop i xs)"
    using assms(3) by (metis le_add_diff_inverse take_add)
  have pre: "\<forall>x \<in> set (take i xs). num_le (Fin 0) x"
    using assms(2) by (meson in_set_takeD)
  have post: "\<forall>x \<in> set (take (j - i) (drop i xs)). num_le (Fin 0) x"
    using assms(2) by (meson in_set_takeD in_set_dropD)
  have "num_le (Fin 0) (foldl num_add a (take i xs))"
    using foldl_num_add_grows [OF assms(1) pre] by simp
  from foldl_num_add_grows [OF this post] show ?thesis
    by (simp add: split)
qed

lemma floor_numeral_div_rat:
  "floor (numeral a / numeral b :: rat) = numeral a div numeral b"
  using floor_divide_of_int_eq [of "numeral a" "numeral b", where ?'a = rat] by simp

text \<open>
  Below \<open>10^21\<close> in magnitude \<open>parseFloat_toFixed2\<close> is rounding to two decimal places:
  the result is a whole number of hundredths, at most half a hundredth away.
\<close>

lemma parseFloat_toFixed2_hundredths:
  assumes "\<bar>x\<bar> < 10 ^ 21"
  shows "\<exists>n :: int. parseFloat_toFixed2 (Fin x) = Fin (of_int n / 100) \<and>
           \<bar>of_int n / 100 - x\<bar> \<le> 1 / 200"
proof -
  define m where "m = floor (\<bar>x\<bar> * 100 + 1 / 2)"
  have lo: "of_int m \<le> \<bar>x\<bar> * 100 + 1 / 2" unfolding m_def by (rule of_int_floor_le)
  have hi: "\<bar>x\<bar> * 100 + 1 / 2 < of_int m + 1" unfolding m_def by linarith
  have near: "\<bar>of_int m / 100 - \<bar>x\<bar>\<bar> \<le> 1 / 200"
  proof -
    have "of_int m / 100 - \<bar>x\<bar> \<le> 1 / 200" using lo by (simp add: field_simps)
    moreover have "\<bar>x\<bar> - of_int m / 100 \<le> 1 / 200" using hi by (simp add: field_simps)
    ultimately show ?thesis by linarith
  qed
  show ?thesis
  proof (cases "0 \<le> x")
    case True
    show ?thesis
    proof (cases "x = 0")
      case True
      then show ?thesis by (intro exI [of _ 0]) simp
    next
      case False
      with \<open>0 \<le> x\<close> have pos: "0 < x" by simp
      then have "parseFloat_toFixed2 (Fin x) = Fin (of_int m / 100)"
        using assms by (simp add: m_def)
      moreover have "\<bar>of_int m / 100 - x\<bar> \<le> 1 / 200" using near pos by simp
      ultimately show ?thesis by blast
    qed
  next
    case False
    then have neg: "x < 0" by simp
    then have "parseFloat_toFixed2 (Fin x) = Fin (of_int (- m) / 100)"
      using assms by (simp add: m_def)
    moreover have "\<bar>of_int (- m) / 100 - x\<bar> \<le> 1 / 200"
    proof -
      have "of_int (- m) / 100 - x = - (of_int m / 100 - \<bar>x\<bar>)" using neg by simp
      then show ?thesis using near by (simp only: abs_minus_cancel)
    qed
    ultimately show ?thesis by blast
  qed
qed

lemma floor_le_of_lt_half:
  fixes y :: rat
  assumes "y < of_int n + 1 / 2"
  shows "floor y \<le> n"
proof -
  have "of_int (floor y) \<le> y" by (rule of_int_floor_le)
  with assms have "(of_int (floor y) :: rat) < of_int n + 1" by linarith
  then have "(of_int (floor y) :: rat) < of_int (n + 1)" by simp
  then have "floor y < n + 1" by (simp only: of_int_less_iff)
  then show ?thesis by simp
qed

text \<open>On numbers that are not negative, \<open>parseFloat_toFixed2\<close> keeps the order.\<close>

lemma parseFloat_toFixed2_mono:
  assumes "num_le (Fin 0) a" and "num_le a b"
  shows "num_le (parseFloat_toFixed2 a) (parseFloat_toFixed2 b)"
proof (cases a)
  case (Fin p)
  with assms(1) have p: "0 \<le> p" by (simp add: num_le_def)
  show ?thesis
  proof (cases b)
    case (Fin q)
    with assms(2) \<open>a = Fin p\<close> have pq: "p \<le> q" by (simp add: num_le_def)
    have q: "0 \<le> q" using p pq by simp
    let ?r = "\<lambda>x::rat. sgn x * (of_int (floor (\<bar>x\<bar> * 100 + 1 / 2)) / 100)"
    have r_eq: "?r x = of_int (floor (x * 100 + 1 / 2)) / 100" if "0 < x" for x
      using that by simp
    have r_mono: "?r p \<le> ?r q"
    proof (cases "p = 0")
      case True
      have "0 \<le> of_int (floor (\<bar>q\<bar> * 100 + 1 / 2)) / (100::rat)"
        by simp
      then have "0 \<le> ?r q" using q by (simp add: sgn_if)
      with True show ?thesis by simp
    next
      case False
      with p have pp: "0 < p" by simp
      with pq have qq: "0 < q" by simp
      have "floor (p * 100 + 1 / 2) \<le> floor (q * 100 + 1 / 2)"
        using pq by (intro floor_mono) simp
      then have "(of_int (floor (p * 100 + 1 / 2)) :: rat) \<le> of_int (floor (q * 100 + 1 / 2))"
        by (simp only: of_int_le_iff)
      then show ?thesis unfolding r_eq [OF pp] r_eq [OF qq] by (simp add: divide_right_mono)
    qed
    have r_bound: "?r p \<le> 10 ^ 21" if "p < 10 ^ 21"
    proof (cases "p = 0")
      case True then show ?thesis by simp
    next
      case False
      with p have pp: "0 < p" by simp
      have "p * 100 + 1 / 2 < of_int (10 ^ 23) + 1 / 2" using that by simp
      then have "floor (p * 100 + 1 / 2) \<le> 10 ^ 23" by (rule floor_le_of_lt_half)
      then have "(of_int (floor (p * 100 + 1 / 2)) :: rat) \<le> of_int (10 ^ 23)"
        by (simp only: of_int_le_iff)
      then have "(of_int (floor (p * 100 + 1 / 2)) :: rat) / 100 \<le> 10 ^ 21" by simp
      then show ?thesis unfolding r_eq [OF pp] .
    qed
    show ?thesis
      using p q pq r_mono r_bound
      by (auto simp: Fin \<open>a = Fin p\<close> num_le_def not_le abs_of_nonneg)
  next
    case NaN with assms(2) show ?thesis by (simp add: num_le_def)
  next
    case PInf then show ?thesis using \<open>a = Fin p\<close> by (simp add: num_le_def)
  next
    case NInf with assms(2) \<open>a = Fin p\<close> show ?thesis by (simp add: num_le_def)
  qed
next
  case NaN with assms(1) show ?thesis by (simp add: num_le_def)
next
  case PInf with assms(2) show ?thesis by (cases b) (simp_all add: num_le_def)
next
  case NInf with assms(1) show ?thesis by (simp add: num_le_def)
qed

section \<open>The aggregator: what the scan computes\<close>

lemma length_chartData_map:
  "length (fst (chartData_map ci ca data)) = length data"
  by (induction data arbitrary: ci ca) (simp_all add: Let_def case_prod_beta)

lemma chartData_map_totals:
  "snd (chartData_map ci ca data) =
     (foldl num_add ci (map invested data), foldl num_add ca (map assetPurchased data))"
  by (induction data arbitrary: ci ca) (simp_all add: Let_def case_prod_beta)

lemma chartData_map_nth:
  "i < length data \<Longrightarrow>
   fst (chartData_map ci ca data) ! i =
     \<lparr>ChartDataPoint.date = ShortDate (RawTransaction.date (data ! i)),
      ChartDataPoint.portValue =
        parseFloat_toFixed2
          (num_mul (foldl num_add ca (map assetPurchased (take (Suc i) data)))
                   (assetPrice (data ! i))),
      assetValue = parseFloat_toFixed2 (foldl num_add ci (map invested (take (Suc i) data))),
      cumulativeAmount = Some (foldl num_add ca (map assetPurchased (take (Suc i) data)))\<rparr>"
proof (induction data arbitrary: ci ca i)
  case Nil
  then show ?case by simp
next
  case (Cons p ps)
  show ?case
  proof (cases i)
    case 0
    then show ?thesis by (simp add: Let_def case_prod_beta)
  next
    case (Suc j)
    with Cons.prems have j: "j < length ps" by simp
    show ?thesis
      using Cons.IH [OF j, of "num_add ci (invested p)" "num_add ca (assetPurchased p)"]
      by (simp add: Suc Let_def case_prod_beta)
  qed
qed

lemma chartData_processData:
  "chartData (processData data) = fst (chartData_map (Fin 0) (Fin 0) data)"
  by (cases data) (simp_all add: processData_def Let_def case_prod_beta)

lemma length_chartData_processData: "length (chartData (processData data)) = length data"
  by (simp add: chartData_processData length_chartData_map)

lemma rawData_processData: "rawData (processData data) = data"
  by (cases data) (simp_all add: processData_def Let_def case_prod_beta)

lemma error_processData: "error (processData data) = None"
  by (cases data) (simp_all add: processData_def Let_def case_prod_beta)

lemma portValue_processData:
  "i < length data \<Longrightarrow>
   ChartDataPoint.portValue (chartData (processData data) ! i) =
     parseFloat_toFixed2
       (num_mul (num_sum (map assetPurchased (take (Suc i) data))) (assetPrice (data ! i)))"
  by (simp add: chartData_processData chartData_map_nth num_sum_def)

lemma cumulativeAmount_processData:
  "i < length data \<Longrightarrow>
   cumulativeAmount (chartData (processData data) ! i) =
     Some (num_sum (map assetPurchased (take (Suc i) data)))"
  by (simp add: chartData_processData chartData_map_nth num_sum_def)

text \<open>The summary of a non-empty list, field by field.\<close>

lemma summaryData_processData:
  assumes "data \<noteq> []"
  shows "summaryData (processData data) =
     Some \<lparr>profitPercentage =
             num_mul (num_div (num_sub (num_mul (num_sum (map assetPurchased data))
                                                (assetPrice (last data)))
                                       (num_sum (map RawTransaction.invested data)))
                              (num_sum (map RawTransaction.invested data)))
                     (Fin 100),
           totalCapital = num_sum (map RawTransaction.invested data),
           entryPrice = num_div (num_sum (map RawTransaction.invested data))
                                (num_sum (map assetPurchased data)),
           startDate = RawTransaction.date (hd data),
           SummaryData.portValue =
             num_mul (num_sum (map assetPurchased data)) (assetPrice (last data)),
           lastUpdated = RawTransaction.date (last data),
           totalAmount = num_sum (map assetPurchased data)\<rparr>"
proof -
  have totals: "chartData_map (Fin 0) (Fin 0) data =
     (fst (chartData_map (Fin 0) (Fin 0) data),
      num_sum (map RawTransaction.invested data), num_sum (map assetPurchased data))"
    using chartData_map_totals [of "Fin 0" "Fin 0" data]
    by (simp add: num_sum_def prod_eq_iff)
  have final: "data ! (length data - Suc 0) = last data" using assms by (simp add: last_conv_nth)
  have first: "data ! 0 = hd data" using assms by (simp add: hd_conv_nth)
  show ?thesis
    using assms unfolding processData_def
    by (subst totals) (simp add: Let_def final first)
qed

section \<open>The parser: the three outcomes\<close>

text \<open>A sheet always has a first line, so its header row is defined.\<close>

lemma split_lines_nonempty: "split_lines s \<noteq> []"
  by (induction s rule: split_lines.induct) (auto split: list.splits)

lemma csv_lines_nonempty: "csv_lines csvText \<noteq> []"
  by (simp add: csv_lines_def split_lines_nonempty)

lemma indexOf_range: "indexOf ys x = - 1 \<or> 0 \<le> indexOf ys x"
  by (induction ys) (auto simp: Let_def)

lemma indexOf_absent: "indexOf xs x = - 1 \<longleftrightarrow> x \<notin> set xs"
proof (induction xs)
  case Nil
  show ?case by simp
next
  case (Cons y ys)
  show ?case using Cons indexOf_range [of ys x] by (auto simp: Let_def)
qed

lemma parseCsv_short:
  "length (csv_lines csvText) < 2 \<Longrightarrow>
   parseCsv csvText asset =
     \<lparr>parsed_data = [], parsed_error = Some ''CSV file is empty or has only a header.''\<rparr>"
  by (simp add: parseCsv_def csv_lines_def Let_def)

lemma parseCsv_missing:
  assumes "2 \<le> length (csv_lines csvText)"
    and "\<exists>c \<in> set (Object_values (COLUMN_MAP asset)). c \<notin> set (csv_header csvText)"
  shows "parseCsv csvText asset =
     \<lparr>parsed_data = [], parsed_error = Some (missing_columns_message asset)\<rparr>"
proof -
  from assms(1) have long: "\<not> length (split_lines (trim csvText)) < 2"
    by (simp add: csv_lines_def)
  from assms(2) have
    "indexOf (csv_header csvText) (AssetColumns.date (COLUMN_MAP asset)) = - 1 \<or>
     indexOf (csv_header csvText) (AssetColumns.invested (COLUMN_MAP asset)) = - 1 \<or>
     indexOf (csv_header csvText) (AssetColumns.price (COLUMN_MAP asset)) = - 1 \<or>
     indexOf (csv_header csvText) (purchased (COLUMN_MAP asset)) = - 1"
    by (auto simp: Object_values_def indexOf_absent)
  then show ?thesis
    using long unfolding parseCsv_def Let_def csv_header_def csv_lines_def
    by (simp only: if_False) auto
qed

lemma parseCsv_resolved:
  assumes "2 \<le> length (csv_lines csvText)"
    and "\<forall>c \<in> set (Object_values (COLUMN_MAP asset)). c \<in> set (csv_header csvText)"
  shows "parseCsv csvText asset =
     \<lparr>parsed_data =
        filter row_filter
          (map (parse_row
                  (indexOf (csv_header csvText) (AssetColumns.date (COLUMN_MAP asset)))
                  (indexOf (csv_header csvText) (AssetColumns.invested (COLUMN_MAP asset)))
                  (indexOf (csv_header csvText) (AssetColumns.price (COLUMN_MAP asset)))
                  (indexOf (csv_header csvText) (purchased (COLUMN_MAP asset))))
             (drop 1 (csv_lines csvText))),
      parsed_error = None\<rparr>"
proof -
  from assms(1) have long: "\<not> length (split_lines (trim csvText)) < 2"
    by (simp add: csv_lines_def)
  from assms(2) have
    "indexOf (csv_header csvText) (AssetColumns.date (COLUMN_MAP asset)) \<noteq> - 1"
    "indexOf (csv_header csvText) (AssetColumns.invested (COLUMN_MAP asset)) \<noteq> - 1"
    "indexOf (csv_header csvText) (AssetColumns.price (COLUMN_MAP asset)) \<noteq> - 1"
    "indexOf (csv_header csvText) (purchased (COLUMN_MAP asset)) \<noteq> - 1"
    by (auto simp: Object_values_def indexOf_absent)
  then show ?thesis
    using long unfolding parseCsv_def Let_def csv_header_def csv_lines_def
    by (simp only: if_False) auto
qed


lemma header_of_lines:
  "csv_lines csvText = headerLine # rest \<Longrightarrow>
   csv_header csvText = map trim (split_comma headerLine)"
  by (simp add: csv_header_def)

lemma row_filter_invested_nonneg: "row_filter r \<Longrightarrow> num_le (Fin 0) (RawTransaction.invested r)"
  by (simp add: row_filter_def num_gt_zero_nonneg)

text \<open>Every record that \<open>parseCsv\<close> returns has passed the row filter.\<close>

lemma parseCsv_rows_pass_filter:
  "r \<in> set (parsed_data (parseCsv csvText asset)) \<Longrightarrow> row_filter r"
proof (cases "2 \<le> length (csv_lines csvText)")
  case False
  then have "length (csv_lines csvText) < 2" by simp
  from parseCsv_short [OF this, of asset] show "r \<in> set (parsed_data (parseCsv csvText asset)) \<Longrightarrow> row_filter r"
    by simp
next
  case True
  show "r \<in> set (parsed_data (parseCsv csvText asset)) \<Longrightarrow> row_filter r"
  proof (cases "\<forall>c \<in> set (Object_values (COLUMN_MAP asset)). c \<in> set (csv_header csvText)")
    case True
    from parseCsv_resolved [OF \<open>2 \<le> length (csv_lines csvText)\<close> this]
    show "r \<in> set (parsed_data (parseCsv csvText asset)) \<Longrightarrow> row_filter r" by simp
  next
    case False
    then have "\<exists>c \<in> set (Object_values (COLUMN_MAP asset)). c \<notin> set (csv_header csvText)"
      by blast
    from parseCsv_missing [OF \<open>2 \<le> length (csv_lines csvText)\<close> this]
    show "r \<in> set (parsed_data (parseCsv csvText asset)) \<Longrightarrow> row_filter r" by simp
  qed
qed

section \<open>Evaluating the sample inputs\<close>

lemmas csv_eval =
  newline_def btc_header_def csv_lines_def csv_header_def trim_def is_whitespace_def

lemmas row_eval =
  parse_row_def trim_def is_whitespace_def element_at_def parseFloat_def parseFloat_string_def
  trimStart_def is_digit_def digits_value_def exponent_part_def scale10_def Let_def

lemmas filter_eval = row_filter_def truthy_object_def isNaN_def num_gt_def

lemmas bundle_eval =
  asset_bundle_def truthy_string_def rawData_processData summaryData_processData
  chartData_processData num_sum_def Let_def floor_numeral_div_rat

lemma btc_columns:
  "Object_values (COLUMN_MAP BTC) =
     [''Date'', ''Invested (THB)'', ''BTC Price (THB)'', ''BTC Purchased'']"
  "AssetColumns.date (COLUMN_MAP BTC) = ''Date''"
  "AssetColumns.invested (COLUMN_MAP BTC) = ''Invested (THB)''"
  "AssetColumns.price (COLUMN_MAP BTC) = ''BTC Price (THB)''"
  "purchased (COLUMN_MAP BTC) = ''BTC Purchased''"
  by (simp_all add: Object_values_def COLUMN_MAP_def)

lemma header_btc: "map trim (split_comma btc_header) =
   [''Date'', ''Invested (THB)'', ''BTC Price (THB)'', ''BTC Purchased'']"
  by (simp add: csv_eval)

lemma lines_unparseable_date:
  "csv_lines csv_unparseable_date = [btc_header, ''not-a-date,100,50000,0.002'']"
  by (simp add: csv_unparseable_date_def csv_eval)

lemma row_unparseable_date:
  "parse_row 0 1 2 3 ''not-a-date,100,50000,0.002'' =
     \<lparr>RawTransaction.date = Date (Some ''not-a-date''), RawTransaction.invested = Fin 100,
      assetPrice = Fin 50000, assetPurchased = Fin (2 / 1000)\<rparr>"
  by (simp add: row_eval)

lemma lines_missing_date_cell:
  "csv_lines csv_missing_date_cell = [date_last_header, ''100,50000,0.002'']"
  by (simp add: csv_missing_date_cell_def date_last_header_def csv_eval)

lemma header_date_last:
  "map trim (split_comma date_last_header) =
     [''Invested (THB)'', ''BTC Price (THB)'', ''BTC Purchased'', ''Date'']"
  by (simp add: date_last_header_def csv_eval)

lemma row_missing_date_cell:
  "parse_row 3 0 1 2 ''100,50000,0.002'' =
     \<lparr>RawTransaction.date = Date None, RawTransaction.invested = Fin 100,
      assetPrice = Fin 50000, assetPurchased = Fin (2 / 1000)\<rparr>"
  by (simp add: row_eval)




lemma lines_negative_units:
  "csv_lines csv_negative_units =
     [btc_header, ''2024-01-01,100,50000,0.002'', ''2024-01-02,100,50000,-0.001'']"
  by (simp add: csv_negative_units_def csv_eval)

lemma rows_negative_units:
  "parse_row 0 1 2 3 ''2024-01-01,100,50000,0.002'' =
     \<lparr>RawTransaction.date = Date (Some ''2024-01-01''), RawTransaction.invested = Fin 100,
      assetPrice = Fin 50000, assetPurchased = Fin (2 / 1000)\<rparr>"
  "parse_row 0 1 2 3 ''2024-01-02,100,50000,-0.001'' =
     \<lparr>RawTransaction.date = Date (Some ''2024-01-02''), RawTransaction.invested = Fin 100,
      assetPrice = Fin 50000, assetPurchased = Fin (- 1 / 1000)\<rparr>"
  by (simp_all add: row_eval)

lemma parseCsv_negative_units:
  "parseCsv csv_negative_units BTC =
     \<lparr>parsed_data =
        [\<lparr>RawTransaction.date = Date (Some ''2024-01-01''), RawTransaction.invested = Fin 100,
          assetPrice = Fin 50000, assetPurchased = Fin (2 / 1000)\<rparr>,
         \<lparr>RawTransaction.date = Date (Some ''2024-01-02''), RawTransaction.invested = Fin 100,
          assetPrice = Fin 50000, assetPurchased = Fin (- 1 / 1000)\<rparr>],
      parsed_error = None\<rparr>"
proof -
  have "parseCsv csv_negative_units BTC =
     \<lparr>parsed_data = filter row_filter
        [parse_row 0 1 2 3 ''2024-01-01,100,50000,0.002'',
         parse_row 0 1 2 3 ''2024-01-02,100,50000,-0.001''],
      parsed_error = None\<rparr>"
    by (subst parseCsv_resolved)
       (simp_all add: header_of_lines [OF lines_negative_units] header_btc lines_negative_units
          btc_columns)
  then show ?thesis by (simp add: rows_negative_units filter_eval)
qed




lemma lines_example:
  "csv_lines example_csv =
     [btc_header, ''2024-01-01,100,50000,0.002'', ''2024-02-01,100,60000,0.00167'']"
  by (simp add: example_csv_def csv_eval)

lemma rows_example:
  "parse_row 0 1 2 3 ''2024-01-01,100,50000,0.002'' = example_rows ! 0"
  "parse_row 0 1 2 3 ''2024-02-01,100,60000,0.00167'' = example_rows ! 1"
  by (simp_all add: row_eval example_rows_def)

lemma parseCsv_example: "parseCsv example_csv BTC = \<lparr>parsed_data = example_rows, parsed_error = None\<rparr>"
proof -
  have "parseCsv example_csv BTC =
     \<lparr>parsed_data = filter row_filter
        [parse_row 0 1 2 3 ''2024-01-01,100,50000,0.002'',
         parse_row 0 1 2 3 ''2024-02-01,100,60000,0.00167''],
      parsed_error = None\<rparr>"
    by (subst parseCsv_resolved)
       (simp_all add: header_of_lines [OF lines_example] header_btc lines_example btc_columns)
  then show ?thesis by (simp add: rows_example) (simp add: example_rows_def filter_eval)
qed

lemma bundle_example: "asset_bundle example_csv BTC = processData example_rows"
  by (simp add: asset_bundle_def parseCsv_example truthy_string_def Let_def example_rows_def)

lemma fetchAllDcaData_example:
  "fetchAllDcaData example_response =
     Inr [BTC \<mapsto> processData example_rows, GOLD \<mapsto> asset_bundle example_csv GOLD]"
  by (simp add: fetchAllDcaData_def example_response_def bundle_example)

lemma fetchLivePrices_example:
  "fetchLivePrices (coin_response (Fin 2000)) (coin_response p)
          (gold_response (Fin 3110350)) (gold_response (Fin 88867)) =
   Inr (example_prices p, num_div p (Fin 2000))"
  by (simp add: fetchLivePrices_def coin_response_def gold_response_def btcPrice_def
        truthy_number_def Let_def example_prices_def)

lemma loaded_page_eval:
  "loaded_page p =
     \<lparr>loading = False, pageError = None,
      allDcaData = Some [BTC \<mapsto> processData example_rows,
                         GOLD \<mapsto> asset_bundle example_csv GOLD],
      timeRange = Y, currency = THB, selectedAsset = BTC,
      livePrices = Some (example_prices p), thbUsdRate = Some (num_div p (Fin 2000)),
      livePriceError = None, isRefreshing = False\<rparr>"
  unfolding loaded_page_def fetchAllDcaData_example fetchLivePrices_example
  by (simp add: initialLoad_def loadInitialData_def initial_state_def truthy_string_def)

lemma loaded_page_fields:
  "page_currentAssetData (loaded_page p) = Some (processData example_rows)"
  "page_currentLivePrice (loaded_page p) =
     Some \<lparr>price = p, change24h = Fin 0, change24hPercentage = Fin 0, isMock = None\<rparr>"
  "page_conversionRate (loaded_page p) = Fin 1"
  "selectedAsset (loaded_page p) = BTC"
  "timeRange (loaded_page p) = Y"
  by (simp_all add: loaded_page_eval page_currentAssetData_def currentAssetData_def
        page_currentLivePrice_def currentLivePrice_def page_conversionRate_def conversionRate_def
        example_prices_def)


section \<open>Live prices and the states of the page\<close>

lemma fetchLivePrices_resolved:
  assumes "fetchLivePrices bu bt gt gu = Inr (prices, rate)"
  shows "\<exists>usdItem thbItem goldThb goldUsd.
           first_item bu = Some usdItem \<and> first_item bt = Some thbItem \<and>
           first_item gt = Some goldThb \<and> first_item gu = Some goldUsd \<and>
           truthy_number (current_price usdItem) \<and>
           prices = [BTC \<mapsto> \<lparr>thb = btcPrice thbItem, usd = btcPrice usdItem\<rparr>,
                     GOLD \<mapsto> \<lparr>thb = goldPrice goldThb, usd = goldPrice goldUsd\<rparr>] \<and>
           rate = num_div (current_price thbItem) (current_price usdItem)"
  using assms
  by (auto simp: fetchLivePrices_def Let_def btcPrice_def split: if_splits option.splits)

lemma fetchLivePrices_both_assets:
  assumes "fetchLivePrices bu bt gt gu = Inr priceData"
  shows "fst priceData BTC \<noteq> None \<and> fst priceData GOLD \<noteq> None"
proof -
  obtain prices rate where pd: "priceData = (prices, rate)" by (cases priceData)
  from fetchLivePrices_resolved [OF assms [unfolded pd]] show ?thesis
    by (auto simp: pd)
qed

lemma loadInitialData_complete:
  assumes "prices_complete s"
    and "\<And>pd. priceSettled = Inr pd \<Longrightarrow> fst pd BTC \<noteq> None \<and> fst pd GOLD \<noteq> None"
  shows "prices_complete (loadInitialData dcaSettled priceSettled s)"
proof (cases "Promise_all2 dcaSettled priceSettled")
  case (Inl e)
  with assms(1) show ?thesis by (auto simp: loadInitialData_def prices_complete_def)
next
  case (Inr both)
  then obtain dca pd where "dcaSettled = Inr dca" "priceSettled = Inr pd" "both = (dca, pd)"
    by (cases dcaSettled; cases priceSettled) auto
  with assms(2) [of pd] Inr show ?thesis
    by (auto simp: loadInitialData_def prices_complete_def)
qed

lemma prices_complete_frame:
  "livePrices s' = livePrices s \<Longrightarrow> thbUsdRate s' = thbUsdRate s \<Longrightarrow>
   allDcaData s' = allDcaData s \<Longrightarrow> prices_complete s' = prices_complete s"
  by (simp add: prices_complete_def)

lemma interval_tick_complete:
  assumes "prices_complete s"
    and "\<And>pd. priceSettled = Inr pd \<Longrightarrow> fst pd BTC \<noteq> None \<and> fst pd GOLD \<noteq> None"
  shows "prices_complete (interval_tick priceSettled s)"
proof (cases priceSettled)
  case (Inl e)
  with assms(1) show ?thesis by (auto simp: interval_tick_def prices_complete_def)
next
  case (Inr pd)
  with assms(1) assms(2) [of pd] show ?thesis
    by (auto simp: interval_tick_def prices_complete_def)
qed

text \<open>Every state the page can be in keeps its live prices complete.\<close>

lemma reachable_prices_complete: "reachable s \<Longrightarrow> prices_complete s"
proof (induction rule: reachable.induct)
  case start
  show ?case by (simp add: prices_complete_def initial_state_def)
next
  case (loaded s response bu bt gt gu)
  let ?t = "loadInitialData (fetchAllDcaData response) (fetchLivePrices bu bt gt gu)
              (s\<lparr>loading := True\<rparr>)"
  have "prices_complete (s\<lparr>loading := True\<rparr>)"
    using loaded.IH prices_complete_frame [of "s\<lparr>loading := True\<rparr>" s] by simp
  then have "prices_complete ?t"
    by (rule loadInitialData_complete) (rule fetchLivePrices_both_assets)
  then show ?case
    using prices_complete_frame [of "?t\<lparr>loading := False\<rparr>" ?t]
    unfolding initialLoad_def by simp
next
  case (refreshed s response bu bt gt gu)
  let ?t = "loadInitialData (fetchAllDcaData response) (fetchLivePrices bu bt gt gu)
              (s\<lparr>isRefreshing := True\<rparr>)"
  have "prices_complete (s\<lparr>isRefreshing := True\<rparr>)"
    using refreshed.IH prices_complete_frame [of "s\<lparr>isRefreshing := True\<rparr>" s] by simp
  then have "prices_complete ?t"
    by (rule loadInitialData_complete) (rule fetchLivePrices_both_assets)
  then show ?case
    using refreshed.IH prices_complete_frame [of "?t\<lparr>isRefreshing := False\<rparr>" ?t]
    unfolding handleRefresh_def by simp
next
  case (refresh_failed s message priceSettled)
  let ?t = "handleRefresh (Inl message) priceSettled s"
  from refresh_failed.IH prices_complete_frame [of ?t s] show ?case
    by (simp add: handleRefresh_def loadInitialData_def)
next
  case (load_failed s message priceSettled)
  let ?t = "initialLoad (Inl message) priceSettled s"
  from load_failed.IH prices_complete_frame [of ?t s] show ?case
    by (simp add: initialLoad_def loadInitialData_def)
next
  case (tick s bu bt gt gu)
  from tick.IH show ?case
    by (rule interval_tick_complete) (rule fetchLivePrices_both_assets)
next
  case (range_chosen s r)
  with prices_complete_frame [of "s\<lparr>timeRange := r\<rparr>" s] show ?case by simp
next
  case (currency_chosen s c)
  with prices_complete_frame [of "s\<lparr>currency := c\<rparr>" s] show ?case by simp
next
  case (asset_chosen s a)
  with prices_complete_frame [of "s\<lparr>selectedAsset := a\<rparr>" s] show ?case by simp
qed

lemma reachable_no_rate_no_price:
  assumes "reachable s" and "thbUsdRate s = None"
  shows "page_currentLivePrice s = None \<and> page_currentAssetData s = None"
  using reachable_prices_complete [OF assms(1)] assms(2)
  by (auto simp: prices_complete_def page_currentLivePrice_def currentLivePrice_def
        page_currentAssetData_def currentAssetData_def)

lemma filteredChartData_all:
  "\<not> truthy_string (error bundle) \<Longrightarrow>
   filteredChartData (Some bundle) Y rate perGram =
     map (displayed_point perGram rate) (chartData bundle)"
  by (simp add: filteredChartData_def)

lemma filteredChartData_slices:
  "filteredChartData assetData W rate perGram =
     slice_last 7 (filteredChartData assetData Y rate perGram)"
  "filteredChartData assetData M rate perGram =
     slice_last 30 (filteredChartData assetData Y rate perGram)"
  by (simp_all add: filteredChartData_def slice_last_def drop_map split: option.splits)

lemma displayed_point_unconverted: "displayed_point None (Fin 1) d = d"
  by (simp add: displayed_point_def num_mul_one)

section \<open>Chart points (C1)\<close>



section \<open>Which rows the parser keeps (C2)\<close>

text \<open>
  C2. The specification has a data row kept by \<open>parseCsv\<close> exactly when its date parses
  to a valid date, its three numeric fields parse to numbers and the invested amount is
  positive. The filter tests the date with \<open>d.date &&\<close>, and a \<open>Date\<close> object is truthy
  whether or not its time value is valid, so the date never decides. On a sheet whose only
  data row has the date cell \<open>not-a-date\<close>, \<open>parseCsv\<close> returns that row, with no error;
  and likewise on a sheet whose only data row has no date cell, where the date is
  \<open>new Date(undefined)\<close>. Whatever the date parser makes of \<open>not-a-date\<close>, the first
  row is kept with that time value, and the second is kept with none.
\<close>

theorem parseCsv_keeps_unparseable_date:
  "parseCsv csv_unparseable_date BTC =
     \<lparr>parsed_data =
        [\<lparr>RawTransaction.date = Date (Some ''not-a-date''), RawTransaction.invested = Fin 100,
          assetPrice = Fin 50000, assetPurchased = Fin (2 / 1000)\<rparr>],
      parsed_error = None\<rparr> \<and>
   parseCsv csv_missing_date_cell BTC =
     \<lparr>parsed_data =
        [\<lparr>RawTransaction.date = Date None, RawTransaction.invested = Fin 100,
          assetPrice = Fin 50000, assetPurchased = Fin (2 / 1000)\<rparr>],
      parsed_error = None\<rparr> \<and>
   map (\<lambda>d. time_value parse (RawTransaction.date d))
     (parsed_data (parseCsv csv_unparseable_date BTC)) = [parse ''not-a-date''] \<and>
   map (\<lambda>d. time_value parse (RawTransaction.date d))
     (parsed_data (parseCsv csv_missing_date_cell BTC)) = [None]"
proof -
  have "parseCsv csv_unparseable_date BTC =
     \<lparr>parsed_data = filter row_filter [parse_row 0 1 2 3 ''not-a-date,100,50000,0.002''],
      parsed_error = None\<rparr>"
    by (subst parseCsv_resolved)
       (simp_all add: header_of_lines [OF lines_unparseable_date] header_btc
          lines_unparseable_date btc_columns)
  moreover have "parseCsv csv_missing_date_cell BTC =
     \<lparr>parsed_data = filter row_filter [parse_row 3 0 1 2 ''100,50000,0.002''],
      parsed_error = None\<rparr>"
    by (subst parseCsv_resolved)
       (simp_all add: header_of_lines [OF lines_missing_date_cell] header_date_last
          lines_missing_date_cell btc_columns)
  ultimately show ?thesis
    by (simp add: row_unparseable_date row_missing_date_cell filter_eval)
qed

section \<open>The displayed curve (C3)\<close>

text \<open>
  C3, as amended. \<open>processData\<close> values the chart point at index \<open>i\<close> with the price of
  row \<open>i\<close>: its \<open>portValue\<close> is the units bought up to row \<open>i\<close> times that row's
  \<open>assetPrice\<close>, rounded, and no live price enters it. The displayed curve keeps that value,
  times the conversion rate, when there is no live price, and also at a point whose
  cumulative units are zero or not a number; with a live price every other displayed
  point is its cumulative units times the live price. The ranges \<open>W\<close> and \<open>M\<close> show
  the last 7 and the last 30 of these points.
\<close>

theorem displayed_chart_valuation:
  assumes "i < length data"
  shows
    "ChartDataPoint.portValue (chartData (processData data) ! i) =
       parseFloat_toFixed2
         (num_mul (num_sum (map assetPurchased (take (Suc i) data))) (assetPrice (data ! i))) \<and>
     ChartDataPoint.portValue (filteredChartData (Some (processData data)) Y rate None ! i) =
       num_mul (ChartDataPoint.portValue (chartData (processData data) ! i)) rate \<and>
     (truthy_number (num_sum (map assetPurchased (take (Suc i) data))) \<longrightarrow>
        ChartDataPoint.portValue
          (filteredChartData (Some (processData data)) Y rate (Some live) ! i) =
          num_mul (num_sum (map assetPurchased (take (Suc i) data))) (price live)) \<and>
     (\<not> truthy_number (num_sum (map assetPurchased (take (Suc i) data))) \<longrightarrow>
        ChartDataPoint.portValue
          (filteredChartData (Some (processData data)) Y rate (Some live) ! i) =
          num_mul (ChartDataPoint.portValue (chartData (processData data) ! i)) rate) \<and>
     filteredChartData (Some (processData data)) W rate perGram =
       slice_last 7 (filteredChartData (Some (processData data)) Y rate perGram) \<and>
     filteredChartData (Some (processData data)) M rate perGram =
       slice_last 30 (filteredChartData (Some (processData data)) Y rate perGram)"
proof -
  have no_error: "\<not> truthy_string (error (processData data))"
    by (simp add: error_processData truthy_string_def)
  have i': "i < length (chartData (processData data))"
    using assms by (simp add: length_chartData_processData)
  show ?thesis
    using assms i'
    by (simp add: filteredChartData_all [OF no_error] filteredChartData_slices
          portValue_processData cumulativeAmount_processData displayed_point_def
          truthy_number_opt_def)
qed

theorem displayed_chart_valuation_witness:
  "(0::nat) < length example_rows \<and>
   ChartDataPoint.portValue (chartData (processData example_rows) ! 0) = Fin 100 \<and>
   ChartDataPoint.portValue
     (filteredChartData (Some (processData example_rows)) Y (Fin (1 / 35)) None ! 0) =
     Fin (100 / 35) \<and>
   truthy_number (num_sum (map assetPurchased (take (Suc 0) example_rows))) \<and>
   ChartDataPoint.portValue
     (filteredChartData (Some (processData example_rows)) Y (Fin (1 / 35))
        (Some \<lparr>price = Fin 70000, change24h = Fin 0, change24hPercentage = Fin 0,
               isMock = None\<rparr>) ! 0) = Fin 140"
  using displayed_chart_valuation [of 0 example_rows "Fin (1 / 35)"
      "\<lparr>price = Fin 70000, change24h = Fin 0, change24hPercentage = Fin 0, isMock = None\<rparr>"]
  by (simp add: example_rows_def num_sum_def truthy_number_def floor_numeral_div_rat)

text \<open>
  The claim as written fails: once live prices are loaded, the first of the two displayed
  points of the example is worth 140 with bitcoin at 70000 and 160 with bitcoin at 80000,
  while the aggregator valued it at 100 with the price of its own row.
\<close>

theorem displayed_curve_backfilled_counterexample:
  "map ChartDataPoint.portValue (chartData (processData example_rows)) =
     [Fin 100, Fin (2202 / 10)] \<and>
   map ChartDataPoint.portValue (page_filteredChartData (loaded_page (Fin 70000))) =
     [Fin 140, Fin (2569 / 10)] \<and>
   map ChartDataPoint.portValue (page_filteredChartData (loaded_page (Fin 80000))) =
     [Fin 160, Fin (2936 / 10)]"
  by (simp add: page_filteredChartData_def loaded_page_fields page_livePricePerGram_def
        livePricePerGram_def filteredChartData_def error_processData truthy_string_def
        chartData_processData example_rows_def displayed_point_def truthy_number_opt_def
        truthy_number_def Let_def floor_numeral_div_rat)

section \<open>Entry price (C4)\<close>




section \<open>Monotone series (C5)\<close>

text \<open>
  C5, as amended. For records that pass the row filter, the cumulative-invested series
  \<open>assetValue\<close> never decreases from a chart point to a later one; the cumulative-units
  series \<open>cumulativeAmount\<close> never decreases when, in addition, no record has negative
  units.
\<close>

theorem cumulative_series_monotone:
  assumes "\<forall>r \<in> set data. row_filter r" and "i \<le> j" and "j < length data"
  shows "num_le (assetValue (chartData (processData data) ! i))
                (assetValue (chartData (processData data) ! j)) \<and>
    ((\<forall>r \<in> set data. num_le (Fin 0) (assetPurchased r)) \<longrightarrow>
       (\<exists>a b. cumulativeAmount (chartData (processData data) ! i) = Some a \<and>
              cumulativeAmount (chartData (processData data) ! j) = Some b \<and> num_le a b))"
proof -
  from assms have i: "i < length data" by simp
  have ij: "Suc i \<le> Suc j" using assms(2) by simp
  have zero: "num_le (Fin 0) (Fin 0)" by (simp add: num_le_def)
  have prefix: "map f (take n data) = take n (map f data)" for f :: "RawTransaction \<Rightarrow> number" and n
    by (simp add: take_map)
  have inv: "\<forall>x \<in> set (map RawTransaction.invested data). num_le (Fin 0) x"
    using assms(1) by (auto dest: row_filter_invested_nonneg)
  have inv_le:
    "num_le (foldl num_add (Fin 0) (map RawTransaction.invested (take (Suc i) data)))
            (foldl num_add (Fin 0) (map RawTransaction.invested (take (Suc j) data)))"
    unfolding prefix by (rule foldl_num_add_prefix_mono [OF zero inv ij])
  have inv_nonneg:
    "num_le (Fin 0) (foldl num_add (Fin 0) (map RawTransaction.invested (take (Suc i) data)))"
    using foldl_num_add_grows [OF zero, of "map RawTransaction.invested (take (Suc i) data)"] inv
    by (auto dest: in_set_takeD)
  have invested_le: "num_le (assetValue (chartData (processData data) ! i))
                      (assetValue (chartData (processData data) ! j))"
    using parseFloat_toFixed2_mono [OF inv_nonneg inv_le]
    by (simp add: chartData_processData chartData_map_nth [OF i] chartData_map_nth [OF assms(3)])
  have units: "\<exists>a b. cumulativeAmount (chartData (processData data) ! i) = Some a \<and>
              cumulativeAmount (chartData (processData data) ! j) = Some b \<and> num_le a b"
    if "\<forall>r \<in> set data. num_le (Fin 0) (assetPurchased r)"
  proof -
    from that have "\<forall>x \<in> set (map assetPurchased data). num_le (Fin 0) x" by auto
    from foldl_num_add_prefix_mono [OF zero this ij] show ?thesis
      by (simp add: chartData_processData chartData_map_nth [OF i] chartData_map_nth [OF assms(3)]
            take_map)
  qed
  from invested_le units show ?thesis by blast
qed

theorem cumulative_series_monotone_witness:
  "row_filter (example_rows ! 0) \<and> row_filter (example_rows ! 1) \<and>
   (0::nat) \<le> 1 \<and> 1 < length example_rows \<and>
   num_le (Fin 0) (assetPurchased (example_rows ! 0)) \<and>
   num_le (Fin 0) (assetPurchased (example_rows ! 1)) \<and>
   assetValue (chartData (processData example_rows) ! 0) = Fin 100 \<and>
   assetValue (chartData (processData example_rows) ! 1) = Fin 200 \<and>
   num_le (assetValue (chartData (processData example_rows) ! 0))
          (assetValue (chartData (processData example_rows) ! 1)) \<and>
   (\<exists>a b. cumulativeAmount (chartData (processData example_rows) ! 0) = Some a \<and>
          cumulativeAmount (chartData (processData example_rows) ! 1) = Some b \<and> num_le a b)"
  using cumulative_series_monotone [of example_rows 0 1]
  by (simp add: example_rows_def filter_eval num_le_def bundle_eval)

text \<open>
  The filter does not look at the sign of the units: a row with \<open>-0.001\<close> units passes
  it, and the cumulative units fall from 0.002 to 0.001.
\<close>

theorem cumulativeAmount_decreases_counterexample:
  "rawData (asset_bundle csv_negative_units BTC) =
     [\<lparr>RawTransaction.date = Date (Some ''2024-01-01''), RawTransaction.invested = Fin 100,
       assetPrice = Fin 50000, assetPurchased = Fin (2 / 1000)\<rparr>,
      \<lparr>RawTransaction.date = Date (Some ''2024-01-02''), RawTransaction.invested = Fin 100,
       assetPrice = Fin 50000, assetPurchased = Fin (- 1 / 1000)\<rparr>] \<and>
   row_filter \<lparr>RawTransaction.date = Date (Some ''2024-01-02''), RawTransaction.invested = Fin 100,
       assetPrice = Fin 50000, assetPurchased = Fin (- 1 / 1000)\<rparr> \<and>
   map cumulativeAmount (chartData (asset_bundle csv_negative_units BTC)) =
     [Some (Fin (2 / 1000)), Some (Fin (1 / 1000))] \<and>
   \<not> num_le (Fin (2 / 1000)) (Fin (1 / 1000))"
  by (simp add: parseCsv_negative_units bundle_eval filter_eval num_le_def)

section \<open>Live blending (C6)\<close>

text \<open>
  C6. When the selected asset has a bundle with a summary and a live price is available
  for the selected asset and currency, the summary shown has a portfolio value of total
  units times the live unit price, where for \<open>GOLD\<close> the unit price is the live price
  divided by 14.71, and a profit percentage of (that value - total capital) / total
  capital * 100, total capital being the converted capital the summary shows.
\<close>

theorem liveSummary_blends_live_price:
  assumes "page_currentAssetData s = Some bundle" and "summaryData bundle = Some summary"
    and "page_currentLivePrice s = Some live"
  shows "\<exists>r. page_liveSummary s = Some r \<and>
     SummaryData.portValue r =
       num_mul (totalAmount summary)
         (if selectedAsset s = GOLD then num_div (price live) (Fin (1471 / 100)) else price live) \<and>
     totalCapital r = num_mul (totalCapital summary) (page_conversionRate s) \<and>
     profitPercentage r =
       num_mul (num_div (num_sub (SummaryData.portValue r) (totalCapital r)) (totalCapital r))
         (Fin 100)"
  using assms
  by (simp add: page_liveSummary_def liveSummary_def page_livePricePerGram_def
        livePricePerGram_def GOLD_CONVERSION_GRAMS_def Let_def)

theorem liveSummary_blends_live_price_witness:
  "page_currentAssetData (loaded_page (Fin 70000)) = Some (processData example_rows) \<and>
   map_option totalAmount (summaryData (processData example_rows)) = Some (Fin (367 / 100000)) \<and>
   map_option price (page_currentLivePrice (loaded_page (Fin 70000))) = Some (Fin 70000) \<and>
   map_option SummaryData.portValue (page_liveSummary (loaded_page (Fin 70000))) =
     Some (Fin (2569 / 10)) \<and>
   map_option totalCapital (page_liveSummary (loaded_page (Fin 70000))) = Some (Fin 200) \<and>
   map_option profitPercentage (page_liveSummary (loaded_page (Fin 70000))) =
     Some (Fin (2845 / 100))"
proof -
  obtain summary where summary: "summaryData (processData example_rows) = Some summary"
    by (simp add: summaryData_processData example_rows_def)
  note page = loaded_page_fields [of "Fin 70000"]
  from liveSummary_blends_live_price [OF page(1) summary page(2)]
  obtain r where r: "page_liveSummary (loaded_page (Fin 70000)) = Some r"
    "SummaryData.portValue r = num_mul (totalAmount summary) (Fin 70000)"
    "totalCapital r = num_mul (totalCapital summary) (Fin 1)"
    "profitPercentage r =
       num_mul (num_div (num_sub (SummaryData.portValue r) (totalCapital r)) (totalCapital r))
         (Fin 100)"
    by (auto simp: page)
  from summary have totals: "totalAmount summary = Fin (367 / 100000)" "totalCapital summary = Fin 200"
    by (auto simp: summaryData_processData example_rows_def num_sum_def)
  show ?thesis
    using r summary by (simp add: page totals num_sub_def)
qed

section \<open>Currency conversion (C7)\<close>



section \<open>Missing columns (C8)\<close>




section \<open>The summary without a live price (C9)\<close>




section \<open>No THB/USD rate (C10)\<close>

text \<open>
  C10. In a state whose THB/USD rate is \<open>null\<close> while USD is selected, the conversion rate
  is exactly 1. Capital and entry price of the summary, the invested series of the chart
  and the money cells of the transaction rows are therefore shown at their THB magnitude;
  a state the page can reach has no live price either, and then the whole summary and
  the whole chart are the unconverted ones.
\<close>

theorem null_rate_shows_base_currency:
  assumes "thbUsdRate s = None" and "currency s = USD"
  shows "page_conversionRate s = Fin 1 \<and>
    (\<forall>bundle summary. summaryData bundle = Some summary \<longrightarrow>
       (\<exists>r. liveSummary (Some bundle) (page_livePricePerGram s) (page_conversionRate s) = Some r \<and>
            totalCapital r = totalCapital summary \<and> entryPrice r = entryPrice summary)) \<and>
    (\<forall>bundle range.
       map assetValue
         (filteredChartData (Some bundle) range (page_conversionRate s) (page_livePricePerGram s)) =
       map assetValue (filteredChartData (Some bundle) range (Fin 1) None)) \<and>
    (\<forall>tx. TransactionHistory_row (page_conversionRate s) tx =
       (RawTransaction.date tx, RawTransaction.invested tx, assetPrice tx, assetPurchased tx)) \<and>
    (reachable s \<longrightarrow> page_livePricePerGram s = None) \<and>
    (page_livePricePerGram s = None \<longrightarrow>
       (\<forall>bundle. liveSummary (Some bundle) (page_livePricePerGram s) (page_conversionRate s) =
          summaryData bundle) \<and>
       (\<forall>bundle. \<not> truthy_string (error bundle) \<longrightarrow>
          filteredChartData (Some bundle) Y (page_conversionRate s) (page_livePricePerGram s) =
            chartData bundle))"
proof -
  have rate: "page_conversionRate s = Fin 1"
    using assms by (simp add: page_conversionRate_def conversionRate_def)
  have summary: "\<exists>r. liveSummary (Some b) perGram (Fin 1) = Some r \<and>
            totalCapital r = totalCapital summary \<and> entryPrice r = entryPrice summary"
    if "summaryData b = Some summary" for b summary perGram
    using that
    by (simp add: liveSummary_def Let_def num_mul_one case_prod_beta split: option.splits)
  have series: "map assetValue (filteredChartData (Some b) range (Fin 1) perGram) =
       map assetValue (filteredChartData (Some b) range (Fin 1) None)"
    for b range perGram
    by (simp add: filteredChartData_def displayed_point_def Let_def)
  have rows: "TransactionHistory_row (Fin 1) tx =
       (RawTransaction.date tx, RawTransaction.invested tx, assetPrice tx, assetPurchased tx)" for tx
    by (simp add: TransactionHistory_row_def num_mul_one)
  have no_price: "page_livePricePerGram s = None" if "reachable s"
    using reachable_no_rate_no_price [OF that assms(1)]
    by (simp add: page_livePricePerGram_def livePricePerGram_def)
  have whole: "liveSummary (Some b) None (Fin 1) = summaryData b" for b
    by (simp add: liveSummary_def Let_def num_mul_one split: option.splits)
  have chart: "filteredChartData (Some b) Y (Fin 1) None = chartData b"
    if "\<not> truthy_string (error b)" for b
    using that by (simp add: filteredChartData_def displayed_point_unconverted [abs_def])
  show ?thesis
    unfolding rate using summary series rows no_price whole chart by (auto simp: rate)
qed

theorem null_rate_shows_base_currency_witness:
  "thbUsdRate (initial_state\<lparr>currency := USD\<rparr>) = None \<and>
   currency (initial_state\<lparr>currency := USD\<rparr>) = USD \<and>
   reachable (initial_state\<lparr>currency := USD\<rparr>) \<and>
   page_conversionRate (initial_state\<lparr>currency := USD\<rparr>) = Fin 1 \<and>
   page_livePricePerGram (initial_state\<lparr>currency := USD\<rparr>) = None \<and>
   summaryData (processData example_rows) \<noteq> None \<and>
   \<not> truthy_string (error (processData example_rows)) \<and>
   liveSummary (Some (processData example_rows))
     (page_livePricePerGram (initial_state\<lparr>currency := USD\<rparr>))
     (page_conversionRate (initial_state\<lparr>currency := USD\<rparr>)) =
     summaryData (processData example_rows) \<and>
   filteredChartData (Some (processData example_rows)) Y
     (page_conversionRate (initial_state\<lparr>currency := USD\<rparr>))
     (page_livePricePerGram (initial_state\<lparr>currency := USD\<rparr>)) =
     chartData (processData example_rows)"
proof -
  let ?s = "initial_state\<lparr>currency := USD\<rparr>"
  have hyps: "thbUsdRate ?s = None" "currency ?s = USD"
    by (simp_all add: initial_state_def)
  have reach: "reachable ?s"
    by (rule reachable.currency_chosen) (rule reachable.start)
  have extra: "summaryData (processData example_rows) \<noteq> None"
    "\<not> truthy_string (error (processData example_rows))"
    by (simp_all add: summaryData_processData example_rows_def error_processData truthy_string_def)
  note facts = null_rate_shows_base_currency [OF hyps]
  from facts have rate: "page_conversionRate ?s = Fin 1" by (rule conjunct1)
  from facts reach have none: "page_livePricePerGram ?s = None" by blast
  from facts none have
    "liveSummary (Some (processData example_rows)) (page_livePricePerGram ?s)
       (page_conversionRate ?s) = summaryData (processData example_rows)"
    by blast
  moreover from facts none extra(2) have
    "filteredChartData (Some (processData example_rows)) Y (page_conversionRate ?s)
       (page_livePricePerGram ?s) = chartData (processData example_rows)"
    by blast
  ultimately show ?thesis using hyps reach rate none extra by simp
qed

section \<open>Further properties\<close>

text \<open>
  The row filter of \<open>parseCsv\<close> decides on the three numbers alone: a record is kept
  exactly when none of them is not-a-number and the invested amount is greater than zero,
  whatever its date.
\<close>

theorem row_filter_ignores_date:
  "row_filter d =
     (\<not> isNaN (RawTransaction.invested d) \<and> \<not> isNaN (assetPrice d) \<and>
      \<not> isNaN (assetPurchased d) \<and> num_gt (RawTransaction.invested d) (Fin 0)) \<and>
   row_filter (d\<lparr>RawTransaction.date := anyDate\<rparr>) = row_filter d"
  by (simp add: row_filter_def truthy_object_def)

text \<open>
  In every state the page can reach, a summary is shown only together with a live
  price for the selected asset and currency: bundles are stored by \<open>loadInitialData\<close>
  alone, which stores the live prices in the same step, and no handler removes them.
\<close>

lemma reachable_bundle_has_price:
  assumes "reachable s" and "page_currentAssetData s \<noteq> None"
  shows "page_currentLivePrice s \<noteq> None"
proof -
  from assms(2) have "allDcaData s \<noteq> None"
    by (auto simp: page_currentAssetData_def currentAssetData_def split: option.splits)
  with reachable_prices_complete [OF assms(1)] obtain prices where
    p: "livePrices s = Some prices" "prices BTC \<noteq> None" "prices GOLD \<noteq> None"
    by (auto simp: prices_complete_def)
  then have "prices (selectedAsset s) \<noteq> None" by (cases "selectedAsset s") simp_all
  with p(1) show ?thesis
    by (auto simp: page_currentLivePrice_def currentLivePrice_def)
qed

theorem summary_comes_with_live_price:
  assumes "reachable s" and "page_liveSummary s \<noteq> None"
  shows "page_currentLivePrice s \<noteq> None"
proof -
  from assms(2) have "page_currentAssetData s \<noteq> None"
    by (cases "page_currentAssetData s") (simp_all add: page_liveSummary_def liveSummary_def)
  with assms(1) show ?thesis by (rule reachable_bundle_has_price)
qed

theorem summary_comes_with_live_price_witness:
  "reachable (loaded_page (Fin 70000)) \<and>
   page_liveSummary (loaded_page (Fin 70000)) \<noteq> None \<and>
   page_currentLivePrice (loaded_page (Fin 70000)) \<noteq> None"
proof -
  have reach: "reachable (loaded_page (Fin 70000))"
    unfolding loaded_page_def by (rule reachable.loaded) (rule reachable.start)
  have shown: "page_liveSummary (loaded_page (Fin 70000)) \<noteq> None"
    by (simp add: page_liveSummary_def liveSummary_def loaded_page_fields
          summaryData_processData example_rows_def case_prod_beta Let_def split: option.splits)
  from summary_comes_with_live_price [OF reach shown] reach shown show ?thesis by simp
qed

end
